theory Spec2Isabelle
  imports Main
begin

section \<open>The HTML embed editing plugin (htmlembedediting.ts, codemirror.ts)\<close>

text \<open>
  A shallow embedding of \<^verbatim>\<open>HtmlEmbedEditing\<close> and of the CodeMirror wrapper
  \<^verbatim>\<open>init\<close>. The plugin is event wiring against a host editor, so the model is a
  record of the host state the callbacks read and write, and one HOL function per
  callback of the source. Closures of the source are HOL functions over that state;
  objects with identity (model elements, button views) live in stores indexed by a
  reference.
\<close>

subsection \<open>Values, console, configuration\<close>

text \<open>
  The values the plugin reads from attributes and custom properties: a string, or
  JavaScript's \<^verbatim>\<open>undefined\<close> (also what a missing key reads as).
\<close>

datatype js_value = Undefined | Str string

text \<open>
  \<^verbatim>\<open>x as string || ''\<close>: the cast is unchecked, \<^verbatim>\<open>||\<close> replaces a falsy left
  operand (\<^verbatim>\<open>undefined\<close>, the empty string) by the right one.
\<close>

fun or_empty :: "js_value \<Rightarrow> string" where
  "or_empty Undefined = []"
| "or_empty (Str s) = (if s = [] then [] else s)"

text \<open>
  The console: \<^verbatim>\<open>logWarning( code )\<close> of the host's utils writes a warning,
  \<^verbatim>\<open>console.log( label, content )\<close> a plain entry.
\<close>

datatype console_entry = Warning string | Log string string

type_synonym console_log = "console_entry list"

definition logWarning :: "string \<Rightarrow> console_log \<Rightarrow> console_log" where
  "logWarning code c = c @ [Warning code]"

definition console_log :: "string \<Rightarrow> string \<Rightarrow> console_log \<Rightarrow> console_log" where
  "console_log label content c = c @ [Log label content]"

fun is_warning :: "console_entry \<Rightarrow> bool" where
  "is_warning (Warning code) = True"
| "is_warning (Log label content) = False"

definition warnings :: "console_log \<Rightarrow> console_log" where
  "warnings c = filter is_warning c"

record SanitizeResult =
  html :: string
  hasChanged :: bool

type_synonym sanitize_fn = "string \<Rightarrow> console_log \<Rightarrow> SanitizeResult \<times> console_log"

text \<open>
  \<^verbatim>\<open>HtmlEmbedConfig\<close>: an option the integrator did not set is \<open>None\<close>.
\<close>

record HtmlEmbedConfig =
  showPreviews :: "bool option"
  sanitizeHtml :: "sanitize_fn option"

text \<open>The default \<^verbatim>\<open>sanitizeHtml\<close> of the constructor (lines 48-63).\<close>

definition default_sanitizeHtml :: sanitize_fn where
  "default_sanitizeHtml rawHtml c =
     (\<lparr>html = rawHtml, hasChanged = False\<rparr>,
      logWarning ''html-embed-provide-sanitize-function'' c)"

text \<open>
  Modelled from the spec: \<^verbatim>\<open>editor.config.define( 'htmlEmbed', defaults )\<close> belongs
  to the host's configuration class. The options "default to" the values given here: a
  default is taken only for an option the integrator left undefined.
\<close>

definition config_define :: "HtmlEmbedConfig \<Rightarrow> HtmlEmbedConfig \<Rightarrow> HtmlEmbedConfig" where
  "config_define defaults cfg =
     \<lparr>showPreviews = (case showPreviews cfg of None \<Rightarrow> showPreviews defaults | Some b \<Rightarrow> Some b),
      sanitizeHtml = (case sanitizeHtml cfg of None \<Rightarrow> sanitizeHtml defaults | Some f \<Rightarrow> Some f)\<rparr>"

subsection \<open>Host state\<close>

type_synonym element_ref = nat
type_synonym button_ref = nat

text \<open>A model element: its name and its attribute map.\<close>

record ModelElement =
  elementName :: string
  attrs :: "string \<rightharpoonup> js_value"

definition getAttribute :: "ModelElement \<Rightarrow> string \<Rightarrow> js_value" where
  "getAttribute e k = (case attrs e k of None \<Rightarrow> Undefined | Some v \<Rightarrow> v)"

text \<open>\<^verbatim>\<open>Element._setAttribute( key, value )\<close>: the write without a writer.\<close>

definition element_setAttribute :: "string \<Rightarrow> js_value \<Rightarrow> ModelElement \<Rightarrow> ModelElement" where
  "element_setAttribute k v e = e\<lparr>attrs := (attrs e)(k \<mapsto> v)\<rparr>"

text \<open>\<^verbatim>\<open>writer.createElement( name, attributes )\<close>.\<close>

definition createElement_model :: "string \<Rightarrow> (string \<times> js_value) list \<Rightarrow> ModelElement" where
  "createElement_model n kvs = \<lparr>elementName = n, attrs = map_of kvs\<rparr>"

text \<open>
  Modelled from the spec: \<^verbatim>\<open>ButtonView\<close> belongs to the host's UI library. The model
  keeps what the render handler looks at: \<open>element\<close> is \<open>None\<close> for a view that was
  never rendered and otherwise holds \<^verbatim>\<open>element.isConnected\<close>; \<open>destroyCalls\<close>
  counts the calls of \<^verbatim>\<open>destroy()\<close>, so that "disposed exactly once" can be read off.
\<close>

record ButtonView =
  element :: "bool option"
  destroyCalls :: nat

definition destroy :: "ButtonView \<Rightarrow> ButtonView" where
  "destroy b = b\<lparr>destroyCalls := Suc (destroyCalls b)\<rparr>"

record SchemaItemDefinition =
  inheritAllFrom :: string
  allowAttributes :: "string list"

datatype converter =
    UpcastElementToElement
  | DataDowncastElementToElement
  | EditingDowncastElementToStructure

datatype render_listener = DestroyDetachedButtons

text \<open>
  The editor and the plugin instance. \<open>changeBlocks\<close> counts the transactions run by
  \<^verbatim>\<open>model.change\<close>; \<open>selectedElement\<close> is what
  \<^verbatim>\<open>model.document.selection.getSelectedElement()\<close> returns;
  \<open>widgetButtonViewReferences\<close> is the plugin's private set, in insertion order.
\<close>

record EditorState =
  config :: HtmlEmbedConfig
  locale_t :: "string \<Rightarrow> string"
  uiLanguageDirection :: string
  schema :: "(string \<times> SchemaItemDefinition) list"
  commands :: "string list"
  renderListeners :: "(render_listener \<times> string) list"
  rawContentMatchers :: "(string \<times> string) list"
  conversion :: "(string \<times> converter) list"
  elements :: "element_ref \<Rightarrow> ModelElement"
  selectedElement :: "element_ref option"
  changeBlocks :: nat
  console :: console_log
  buttonViews :: "button_ref \<Rightarrow> ButtonView"
  widgetButtonViewReferences :: "button_ref list"

subsection \<open>Construction and initialisation\<close>

definition constructor :: "EditorState \<Rightarrow> EditorState" where
  "constructor editor =
     editor\<lparr>widgetButtonViewReferences := [],
            config := config_define
              \<lparr>showPreviews = Some False, sanitizeHtml = Some default_sanitizeHtml\<rparr>
              (config editor)\<rparr>"

subsection \<open>The render handler (lines 95-104)\<close>

text \<open>\<^verbatim>\<open>buttonView.element && buttonView.element.isConnected\<close>.\<close>

definition attached :: "ButtonView \<Rightarrow> bool" where
  "attached b = (case element b of None \<Rightarrow> False | Some c \<Rightarrow> c)"

text \<open>
  The \<^verbatim>\<open>for ... of\<close> loop over the set. A JavaScript set iterates in insertion
  order and deleting the element just visited does not disturb the iteration, so the
  loop walks the list the set held when the handler started. The \<^verbatim>\<open>return\<close> in
  the body leaves the handler, and with it the loop.
\<close>

fun render_sweep :: "button_ref list \<Rightarrow> EditorState \<Rightarrow> EditorState" where
  "render_sweep [] s = s"
| "render_sweep (buttonView # rest) s =
     (if attached (buttonViews s buttonView) then s
      else render_sweep rest
             (s\<lparr>buttonViews := (buttonViews s)(buttonView := destroy (buttonViews s buttonView)),
                widgetButtonViewReferences :=
                  removeAll buttonView (widgetButtonViewReferences s)\<rparr>))"

definition render_handler :: "EditorState \<Rightarrow> EditorState" where
  "render_handler s = render_sweep (widgetButtonViewReferences s) s"

subsection \<open>The DOM and the source editor (codemirror.ts)\<close>

text \<open>
  A CodeMirror \<^verbatim>\<open>EditorView\<close>: its document (as \<^verbatim>\<open>state.doc.toString()\<close>
  reads it), its placeholder and its update listener. The listener is given
  \<^verbatim>\<open>update.state.doc.toString()\<close>. The extensions of \<^verbatim>\<open>basicSetup\<close> are
  third-party behaviour and are left out.
\<close>

record EditorView =
  doc :: string
  placeholderString :: string
  updateListener :: "string \<Rightarrow> EditorState \<Rightarrow> EditorState"

record EventListener =
  eventType :: string
  handler :: "EditorState \<Rightarrow> EditorState"
  useCapture :: bool

text \<open>
  The browser's DOM is not part of the source. An element has a tag, attributes, child
  nodes and event listeners; \<open>EditorViewDom\<close> is the DOM a CodeMirror view mounts into
  its parent; \<open>Markup m\<close> stands for the nodes the browser's HTML parser builds when the
  string \<open>m\<close> is assigned to \<^verbatim>\<open>innerHTML\<close>. The parser is not modelled: the nodes are
  kept as the string they were parsed from. Reading the markup of an element back
  serialises its nodes again (\<open>innerHTML\<close> below), and that need not give \<open>m\<close>.
\<close>

datatype dom_node =
    HTMLElement string "(string \<times> string) list" "dom_node list" "EventListener list"
  | EditorViewDom EditorView
  | Markup string

fun childNodes :: "dom_node \<Rightarrow> dom_node list" where
  "childNodes (HTMLElement tag as cs ls) = cs"
| "childNodes (EditorViewDom v) = []"
| "childNodes (Markup m) = []"

fun listeners :: "dom_node \<Rightarrow> EventListener list" where
  "listeners (HTMLElement tag as cs ls) = ls"
| "listeners (EditorViewDom v) = []"
| "listeners (Markup m) = []"

text \<open>\<^verbatim>\<open>domElement.textContent = ''\<close>: removes all children.\<close>

fun clear_textContent :: "dom_node \<Rightarrow> dom_node" where
  "clear_textContent (HTMLElement tag as cs ls) = HTMLElement tag as [] ls"
| "clear_textContent (EditorViewDom v) = EditorViewDom v"
| "clear_textContent (Markup m) = Markup m"

text \<open>
  \<^verbatim>\<open>domElement.innerHTML = m\<close>: the children are replaced by what the parser builds
  from \<open>m\<close>.
\<close>

fun set_innerHTML :: "string \<Rightarrow> dom_node \<Rightarrow> dom_node" where
  "set_innerHTML m (HTMLElement tag as cs ls) = HTMLElement tag as [Markup m] ls"
| "set_innerHTML m (EditorViewDom v) = EditorViewDom v"
| "set_innerHTML m (Markup m') = Markup m'"

text \<open>
  Reading \<^verbatim>\<open>innerHTML\<close>, for character data. Markup made only of printable ASCII
  characters other than \<^verbatim>\<open>&\<close> and \<^verbatim>\<open><\<close> is parsed to one text node holding the same
  characters (the empty string to no node), and the HTML serialisation of a text node
  writes \<^verbatim>\<open>&\<close>, \<^verbatim>\<open><\<close> and \<^verbatim>\<open>>\<close> as \<^verbatim>\<open>&amp;\<close>, \<^verbatim>\<open>&lt;\<close> and \<^verbatim>\<open>&gt;\<close>. For any other
  content the result is left open (\<open>None\<close>).
\<close>

definition text_char :: "char \<Rightarrow> bool" where
  "text_char c =
     (32 \<le> (of_char c :: nat) \<and> (of_char c :: nat) \<le> 126 \<and> c \<noteq> CHR ''&'' \<and> c \<noteq> CHR ''<'')"

fun text_only :: "string \<Rightarrow> bool" where
  "text_only [] = True"
| "text_only (c # cs) = (text_char c \<and> text_only cs)"

definition escape_char :: "char \<Rightarrow> string" where
  "escape_char c =
     (if c = CHR ''&'' then ''&amp;''
      else if c = CHR ''<'' then ''&lt;''
      else if c = CHR ''>'' then ''&gt;''
      else [c])"

definition escape_text :: "string \<Rightarrow> string" where
  "escape_text t = concat (map escape_char t)"

fun serialize_node :: "dom_node \<Rightarrow> string option" where
  "serialize_node (Markup m) = (if text_only m then Some (escape_text m) else None)"
| "serialize_node (HTMLElement tag as cs ls) = None"
| "serialize_node (EditorViewDom v) = None"

fun serialize_nodes :: "dom_node list \<Rightarrow> string option" where
  "serialize_nodes [] = Some []"
| "serialize_nodes (n # ns) =
     (case serialize_node n of
        None \<Rightarrow> None
      | Some a \<Rightarrow> (case serialize_nodes ns of None \<Rightarrow> None | Some b \<Rightarrow> Some (a @ b)))"

definition innerHTML :: "dom_node \<Rightarrow> string option" where
  "innerHTML n = serialize_nodes (childNodes n)"

text \<open>\<^verbatim>\<open>parent.append( child )\<close>.\<close>

fun append_child :: "dom_node \<Rightarrow> dom_node \<Rightarrow> dom_node" where
  "append_child child (HTMLElement tag as cs ls) = HTMLElement tag as (cs @ [child]) ls"
| "append_child child (EditorViewDom v) = EditorViewDom v"
| "append_child child (Markup m) = Markup m"

text \<open>\<^verbatim>\<open>domElement.addEventListener( type, listener, useCapture )\<close>.\<close>

fun addEventListener :: "string \<Rightarrow> (EditorState \<Rightarrow> EditorState) \<Rightarrow> bool \<Rightarrow> dom_node \<Rightarrow> dom_node" where
  "addEventListener ty f cap (HTMLElement tag as cs ls) =
     HTMLElement tag as cs (ls @ [\<lparr>eventType = ty, handler = f, useCapture = cap\<rparr>])"
| "addEventListener ty f cap (EditorViewDom v) = EditorViewDom v"
| "addEventListener ty f cap (Markup m) = Markup m"

text \<open>\<^verbatim>\<open>createElement( document, name, attributes )\<close> of the host's utils.\<close>

definition createElement_dom :: "string \<Rightarrow> (string \<times> string) list \<Rightarrow> dom_node" where
  "createElement_dom tag as = HTMLElement tag as [] []"

text \<open>The editor views mounted below a node, in document order.\<close>

fun editorViews :: "dom_node \<Rightarrow> EditorView list" where
  "editorViews (HTMLElement tag as cs ls) = concat (map editorViews cs)"
| "editorViews (EditorViewDom v) = [v]"
| "editorViews (Markup m) = []"

text \<open>The update listener of \<^verbatim>\<open>init\<close> (codemirror.ts, lines 97-101).\<close>

definition codemirror_updateListener ::
  "(string \<Rightarrow> EditorState \<Rightarrow> EditorState) \<Rightarrow> string \<Rightarrow> EditorState \<Rightarrow> EditorState" where
  "codemirror_updateListener contentUpdate content s =
     contentUpdate content (s\<lparr>console := console_log ''update received'' content (console s)\<rparr>)"

text \<open>
  What \<^verbatim>\<open>new EditorView( { doc } )\<close> makes of a string: CodeMirror splits it into
  lines at every \<^verbatim>\<open>\r\n\<close>, \<^verbatim>\<open>\r\<close> or \<^verbatim>\<open>\n\<close> (no line separator is configured) and reads
  the document back with the lines joined by \<^verbatim>\<open>\n\<close>.
\<close>

fun normalize_line_breaks :: "string \<Rightarrow> string" where
  "normalize_line_breaks [] = []"
| "normalize_line_breaks [c] = [if c = CHR 0x0D then CHR 0x0A else c]"
| "normalize_line_breaks (c # d # cs) =
     (if c = CHR 0x0D
      then (if d = CHR 0x0A then CHR 0x0A # normalize_line_breaks cs
            else CHR 0x0A # normalize_line_breaks (d # cs))
      else c # normalize_line_breaks (d # cs))"

text \<open>
  \<^verbatim>\<open>init( parent, doc, contentUpdate, placeholderString )\<close>: the new view, and the
  parent with the view mounted in it.
\<close>

definition codemirror_init ::
  "dom_node \<Rightarrow> string \<Rightarrow> (string \<Rightarrow> EditorState \<Rightarrow> EditorState) \<Rightarrow> string
     \<Rightarrow> EditorView \<times> dom_node" where
  "codemirror_init parent d contentUpdate ph =
     (let view = \<lparr>doc = normalize_line_breaks d, placeholderString = ph,
                  updateListener = codemirror_updateListener contentUpdate\<rparr>
      in (view, append_child (EditorViewDom view) parent))"

subsection \<open>The closures of the editing downcast (lines 145-168, 188-212)\<close>

definition setRawHtmlValue :: "element_ref \<Rightarrow> string \<Rightarrow> EditorState \<Rightarrow> EditorState" where
  "setRawHtmlValue modelElement content s =
     s\<lparr>elements := (elements s)
          (modelElement := element_setAttribute ''value'' (Str content) (elements s modelElement))\<rparr>"

definition getRawHtmlValue :: "element_ref \<Rightarrow> EditorState \<Rightarrow> string" where
  "getRawHtmlValue modelElement s = or_empty (getAttribute (elements s modelElement) ''value'')"

definition renderContent ::
  "dom_node \<Rightarrow> (EditorState \<Rightarrow> string) \<Rightarrow> (string \<Rightarrow> EditorState \<Rightarrow> EditorState)
     \<Rightarrow> EditorState \<Rightarrow> EditorView \<times> dom_node" where
  "renderContent domElement getRaw setRaw s =
     (let cleared = clear_textContent domElement;
          domTextarea = createElement_dom ''div''
            [(''class'', ''ck ck-reset ck-input ck-input-text raw-html-embed__source'')];
          (cmi, mounted) = codemirror_init domTextarea (getRaw s) setRaw
            (locale_t s ''Paste raw HTML here...'')
      in (cmi, append_child mounted cleared))"

text \<open>
  Modelled from the spec: \<^verbatim>\<open>model.change\<close> and \<^verbatim>\<open>writer.setSelection( element, 'on' )\<close>
  belong to the host. A change block is one transaction; selecting "on" an element
  makes it the host's selected element.
\<close>

definition model_change :: "(EditorState \<Rightarrow> EditorState) \<Rightarrow> EditorState \<Rightarrow> EditorState" where
  "model_change f s = f (s\<lparr>changeBlocks := Suc (changeBlocks s)\<rparr>)"

definition writer_setSelection_on :: "element_ref \<Rightarrow> EditorState \<Rightarrow> EditorState" where
  "writer_setSelection_on e s = s\<lparr>selectedElement := Some e\<rparr>"

definition mousedown_listener :: "element_ref \<Rightarrow> EditorState \<Rightarrow> EditorState" where
  "mousedown_listener modelElement s =
     (if selectedElement s \<noteq> Some modelElement
      then model_change (writer_setSelection_on modelElement) s
      else s)"

text \<open>The render function given to \<^verbatim>\<open>createRawElement\<close> for the content wrapper.\<close>

definition contentWrapper_render :: "element_ref \<Rightarrow> EditorState \<Rightarrow> dom_node \<Rightarrow> dom_node" where
  "contentWrapper_render modelElement s domElement =
     (let (cmi, rendered) = renderContent domElement
            (getRawHtmlValue modelElement) (setRawHtmlValue modelElement) s
      in addEventListener ''mousedown'' (mousedown_listener modelElement) True rendered)"

subsection \<open>View elements and the three converters (lines 108-186)\<close>

datatype view_attr = AttrStr string | AttrObj "(string \<times> string) list"

text \<open>
  A raw view element: the host does not render its children but calls its render
  function on the DOM element it created for it.
\<close>

record RawElement =
  rawName :: string
  rawAttrs :: "string \<rightharpoonup> view_attr"
  renderFunction :: "EditorState \<Rightarrow> dom_node \<Rightarrow> dom_node"

record ContainerElement =
  containerName :: string
  containerAttrs :: "string \<rightharpoonup> view_attr"
  containerChildren :: "RawElement list"
  customProperties :: "string \<rightharpoonup> bool"

record WidgetOptions =
  label :: string
  hasSelectionHandle :: bool

record WidgetView =
  widgetElement :: ContainerElement
  widgetOptions :: WidgetOptions

definition createRawElement ::
  "string \<Rightarrow> (string \<times> view_attr) list \<Rightarrow> (EditorState \<Rightarrow> dom_node \<Rightarrow> dom_node) \<Rightarrow> RawElement" where
  "createRawElement n as f = \<lparr>rawName = n, rawAttrs = map_of as, renderFunction = f\<rparr>"

definition writer_setAttribute :: "string \<Rightarrow> view_attr \<Rightarrow> RawElement \<Rightarrow> RawElement" where
  "writer_setAttribute k v e = e\<lparr>rawAttrs := (rawAttrs e)(k \<mapsto> v)\<rparr>"

definition createContainerElement ::
  "string \<Rightarrow> (string \<times> view_attr) list \<Rightarrow> RawElement list \<Rightarrow> ContainerElement" where
  "createContainerElement n as cs =
     \<lparr>containerName = n, containerAttrs = map_of as, containerChildren = cs,
      customProperties = Map.empty\<rparr>"

definition writer_setCustomProperty :: "string \<Rightarrow> bool \<Rightarrow> ContainerElement \<Rightarrow> ContainerElement" where
  "writer_setCustomProperty k v e = e\<lparr>customProperties := (customProperties e)(k \<mapsto> v)\<rparr>"

text \<open>
  Modelled from the spec: \<^verbatim>\<open>toWidget\<close> belongs to the host's widget package. It turns
  the container into "a self-contained, selectable UI unit"; the model keeps the
  container and the options it was given.
\<close>

definition toWidget :: "ContainerElement \<Rightarrow> WidgetOptions \<Rightarrow> WidgetView" where
  "toWidget e opts = \<lparr>widgetElement = e, widgetOptions = opts\<rparr>"

text \<open>The view element the upcast converter is given, with its custom properties.\<close>

record ViewElement =
  viewName :: string
  viewClasses :: "string list"
  viewCustomProperties :: "string \<rightharpoonup> js_value"

definition getCustomProperty :: "ViewElement \<Rightarrow> string \<Rightarrow> js_value" where
  "getCustomProperty v k = (case viewCustomProperties v k of None \<Rightarrow> Undefined | Some x \<Rightarrow> x)"

text \<open>The pattern \<^verbatim>\<open>{ name: 'div', classes: 'raw-html-embed' }\<close>.\<close>

definition matches_raw_html_embed :: "ViewElement \<Rightarrow> bool" where
  "matches_raw_html_embed v =
     (viewName v = ''div'' \<and> ''raw-html-embed'' \<in> set (viewClasses v))"

text \<open>The \<^verbatim>\<open>model\<close> callback of the upcast converter (lines 118-124).\<close>

definition upcast_model :: "ViewElement \<Rightarrow> ModelElement" where
  "upcast_model viewElement =
     createElement_model ''rawHtml'' [(''value'', getCustomProperty viewElement ''$rawContent'')]"

definition upcast :: "ViewElement \<Rightarrow> ModelElement option" where
  "upcast viewElement =
     (if matches_raw_html_embed viewElement then Some (upcast_model viewElement) else None)"

text \<open>The \<^verbatim>\<open>view\<close> callback of the data downcast converter (lines 129-133).\<close>

definition dataDowncast_view :: "element_ref \<Rightarrow> RawElement" where
  "dataDowncast_view modelElement =
     createRawElement ''div'' [(''class'', AttrStr ''raw-html-embed'')]
       (\<lambda>s domElement.
          set_innerHTML (or_empty (getAttribute (elements s modelElement) ''value'')) domElement)"

definition dataDowncast :: "element_ref \<Rightarrow> EditorState \<Rightarrow> RawElement option" where
  "dataDowncast modelElement s =
     (if elementName (elements s modelElement) = ''rawHtml''
      then Some (dataDowncast_view modelElement) else None)"

text \<open>The \<^verbatim>\<open>view\<close> callback of the editing downcast converter (lines 138-185).\<close>

definition editingDowncast_view :: "element_ref \<Rightarrow> EditorState \<Rightarrow> WidgetView" where
  "editingDowncast_view modelElement editor =
     (let viewContentWrapper = createRawElement ''div''
            [(''attributes'', AttrObj [(''data-cke-ignore-events'', ''true'')]),
             (''class'', AttrStr ''raw-html-embed__content-wrapper'')]
            (contentWrapper_render modelElement);
          viewContentWrapper = writer_setAttribute ''data-cke-ignore-events'' (AttrStr ''true'')
            viewContentWrapper;
          viewContainer = createContainerElement ''div''
            [(''class'', AttrStr ''raw-html-embed''),
             (''data-html-embed-label'', AttrStr (locale_t editor ''HTML snippet'')),
             (''dir'', AttrStr (uiLanguageDirection editor))]
            [viewContentWrapper];
          viewContainer = writer_setCustomProperty ''rawHtml'' True viewContainer
      in toWidget viewContainer
           \<lparr>label = locale_t editor ''HTML snippet'', hasSelectionHandle = True\<rparr>)"

definition editingDowncast :: "element_ref \<Rightarrow> EditorState \<Rightarrow> WidgetView option" where
  "editingDowncast modelElement s =
     (if elementName (elements s modelElement) = ''rawHtml''
      then Some (editingDowncast_view modelElement s) else None)"

text \<open>\<^verbatim>\<open>_setupConversion\<close> and \<^verbatim>\<open>init\<close> of the plugin: the registrations.\<close>

definition setupConversion :: "EditorState \<Rightarrow> EditorState" where
  "setupConversion editor =
     editor\<lparr>renderListeners := renderListeners editor @ [(DestroyDetachedButtons, ''lowest'')],
            rawContentMatchers := rawContentMatchers editor @ [(''div'', ''raw-html-embed'')],
            conversion := conversion editor @
              [(''upcast'', UpcastElementToElement),
               (''dataDowncast'', DataDowncastElementToElement),
               (''editingDowncast'', EditingDowncastElementToStructure)]\<rparr>"

definition plugin_init :: "EditorState \<Rightarrow> EditorState" where
  "plugin_init editor =
     setupConversion
       (editor\<lparr>schema := schema editor @
                 [(''rawHtml'', \<lparr>inheritAllFrom = ''$blockObject'', allowAttributes = [''value'']\<rparr>)],
               commands := commands editor @ [''htmlEmbed'']\<rparr>)"

subsection \<open>The plugin at run time\<close>

text \<open>
  What the host and the user can make the plugin do once it is initialised: fire the
  view's render event, render the raw element of a data or editing downcast into a DOM
  element, press the mouse inside a content wrapper, and change the document of a
  source editor. Rendering builds DOM and leaves the editor state alone, which is what
  the type of a render function says.
\<close>

datatype plugin_event =
    ViewRender
  | DataDowncastRender element_ref dom_node
  | EditingDowncastRender element_ref dom_node
  | Mousedown element_ref
  | EditorUpdate element_ref string

fun fire :: "plugin_event \<Rightarrow> EditorState \<Rightarrow> EditorState" where
  "fire ViewRender s = render_handler s"
| "fire (DataDowncastRender modelElement domElement) s = s"
| "fire (EditingDowncastRender modelElement domElement) s = s"
| "fire (Mousedown modelElement) s = mousedown_listener modelElement s"
| "fire (EditorUpdate modelElement content) s =
     codemirror_updateListener (setRawHtmlValue modelElement) content s"

fun run :: "plugin_event list \<Rightarrow> EditorState \<Rightarrow> EditorState" where
  "run [] s = s"
| "run (e # es) s = run es (fire e s)"

text \<open>
  What the host does with a converted element: the upcast result is inserted into the
  model under a reference, and the DOM converter calls the render function of every raw
  child of a widget on the DOM element it made for it.
\<close>

definition insertElement :: "element_ref \<Rightarrow> ModelElement \<Rightarrow> EditorState \<Rightarrow> EditorState" where
  "insertElement r e s = s\<lparr>elements := (elements s)(r := e)\<rparr>"

definition render_children :: "WidgetView \<Rightarrow> EditorState \<Rightarrow> dom_node \<Rightarrow> dom_node list" where
  "render_children w s domElement =
     map (\<lambda>raw. renderFunction raw s domElement) (containerChildren (widgetElement w))"

text \<open>The documents of the source editors mounted below a node.\<close>

definition source_editor_docs :: "dom_node \<Rightarrow> string list" where
  "source_editor_docs n = map doc (editorViews n)"

subsection \<open>Example inputs\<close>

text \<open>
  An editor before the plugin is constructed: previews switched on, no sanitize function
  given, an empty console. Element 0 is a \<^verbatim>\<open>rawHtml\<close> element holding markup with special
  characters, every other element has no \<^verbatim>\<open>value\<close> attribute. Button 1 is attached to the
  DOM, every other button is detached.
\<close>

definition editor0 :: EditorState where
  "editor0 =
     \<lparr>config = \<lparr>showPreviews = Some True, sanitizeHtml = None\<rparr>,
      locale_t = (\<lambda>x. x),
      uiLanguageDirection = ''ltr'',
      schema = [], commands = [], renderListeners = [], rawContentMatchers = [],
      conversion = [],
      elements = (\<lambda>r. \<lparr>elementName = ''rawHtml'',
                         attrs = (if r = 0 then [''value'' \<mapsto> Str ''<b>&amp; 1 < 2</b>'']
                                  else Map.empty)\<rparr>),
      selectedElement = None,
      changeBlocks = 0,
      console = [],
      buttonViews = (\<lambda>b. \<lparr>element = Some (b = 1), destroyCalls = 0\<rparr>),
      widgetButtonViewReferences = []\<rparr>"

definition wrapper0 :: dom_node where
  "wrapper0 = HTMLElement ''div'' [(''class'', ''raw-html-embed__content-wrapper'')] [] []"

definition div_raw_html_embed :: "string \<Rightarrow> ViewElement" where
  "div_raw_html_embed m =
     \<lparr>viewName = ''div'', viewClasses = [''raw-html-embed''],
      viewCustomProperties = [''$rawContent'' \<mapsto> Str m]\<rparr>"

section \<open>Properties\<close>

subsection \<open>The button registry\<close>

lemma fire_registry:
  "widgetButtonViewReferences s = [] \<Longrightarrow>
   widgetButtonViewReferences (fire e s) = [] \<and> buttonViews (fire e s) = buttonViews s"
  by (cases e) (simp_all add: render_handler_def mousedown_listener_def
      model_change_def writer_setSelection_on_def codemirror_updateListener_def setRawHtmlValue_def)

lemma run_registry:
  "widgetButtonViewReferences s = [] \<Longrightarrow>
   widgetButtonViewReferences (run es s) = [] \<and> buttonViews (run es s) = buttonViews s"
  by (induction es arbitrary: s) (simp_all add: fire_registry)



text \<open>
  The handler on a registry that is not empty, a state no code of the plugin builds: the
  \<^verbatim>\<open>return\<close> at the first attached button ends the sweep, so with the attached button 1
  ahead of the detached button 2 nothing is destroyed or removed.
\<close>

lemma render_handler_stops_at_attached:
  "attached (buttonViews (editor0\<lparr>widgetButtonViewReferences := [1, 2]\<rparr>) 1)
   \<and> \<not> attached (buttonViews (editor0\<lparr>widgetButtonViewReferences := [1, 2]\<rparr>) 2)
   \<and> widgetButtonViewReferences
        (render_handler (editor0\<lparr>widgetButtonViewReferences := [1, 2]\<rparr>)) = [1, 2]
   \<and> destroyCalls
        (buttonViews (render_handler (editor0\<lparr>widgetButtonViewReferences := [1, 2]\<rparr>)) 2) = 0"
  by (simp add: render_handler_def editor0_def attached_def)

text \<open>
  C9. Nothing in the plugin adds to the registry: it is empty after construction and
  stays empty through initialisation and every sequence of render events, renderings,
  mouse presses and source edits, and no button view is touched, so the sweep never
  destroys a button.
\<close>

theorem registry_stays_empty:
  "widgetButtonViewReferences (constructor editor) = []
   \<and> widgetButtonViewReferences (run es (plugin_init (constructor editor))) = []
   \<and> buttonViews (run es (plugin_init (constructor editor))) = buttonViews editor"
proof -
  have "widgetButtonViewReferences (plugin_init (constructor editor)) = []"
    by (simp add: plugin_init_def setupConversion_def constructor_def)
  from run_registry [OF this, of es] show ?thesis
    by (simp add: plugin_init_def setupConversion_def constructor_def)
qed

subsection \<open>Upcast and data downcast\<close>

text \<open>
  C2, as the code has it. For every markup string \<open>m\<close>: a \<^verbatim>\<open>div\<close> of class
  \<^verbatim>\<open>raw-html-embed\<close> whose captured raw content is \<open>m\<close> is upcast to a \<^verbatim>\<open>rawHtml\<close> element
  whose \<^verbatim>\<open>value\<close> is \<open>m\<close>, and the data downcast of that element is a raw \<^verbatim>\<open>div\<close> of class
  \<^verbatim>\<open>raw-html-embed\<close> whose render function does exactly \<^verbatim>\<open>innerHTML = m\<close>: the plugin
  hands the value over unchanged, with no escaping of its own. What markup the element
  then has is the browser's business.
\<close>

theorem upcast_dataDowncast_assigns_value:
  assumes "matches_raw_html_embed v" and "getCustomProperty v ''$rawContent'' = Str m"
  shows "upcast v = Some (upcast_model v)
     \<and> elementName (upcast_model v) = ''rawHtml''
     \<and> getAttribute (upcast_model v) ''value'' = Str m
     \<and> dataDowncast r (insertElement r (upcast_model v) s) = Some (dataDowncast_view r)
     \<and> rawName (dataDowncast_view r) = ''div''
     \<and> rawAttrs (dataDowncast_view r) ''class'' = Some (AttrStr ''raw-html-embed'')
     \<and> renderFunction (dataDowncast_view r) (insertElement r (upcast_model v) s) d
         = set_innerHTML m d"
  using assms
  by (simp add: upcast_def upcast_model_def createElement_model_def getAttribute_def
      dataDowncast_def dataDowncast_view_def createRawElement_def insertElement_def)

text \<open>The same at markup with special characters.\<close>

theorem upcast_dataDowncast_assigns_value_witness:
  "matches_raw_html_embed (div_raw_html_embed ''<b>&amp; 1 < 2</b>'')
   \<and> getCustomProperty (div_raw_html_embed ''<b>&amp; 1 < 2</b>'') ''$rawContent''
       = Str ''<b>&amp; 1 < 2</b>''
   \<and> upcast (div_raw_html_embed ''<b>&amp; 1 < 2</b>'')
       = Some (upcast_model (div_raw_html_embed ''<b>&amp; 1 < 2</b>''))
   \<and> dataDowncast 3 (insertElement 3 (upcast_model (div_raw_html_embed ''<b>&amp; 1 < 2</b>'')) editor0)
       = Some (dataDowncast_view 3)
   \<and> renderFunction (dataDowncast_view 3)
         (insertElement 3 (upcast_model (div_raw_html_embed ''<b>&amp; 1 < 2</b>'')) editor0)
         (HTMLElement ''div'' [(''class'', ''raw-html-embed'')] [] [])
       = HTMLElement ''div'' [(''class'', ''raw-html-embed'')] [Markup ''<b>&amp; 1 < 2</b>''] []"
proof -
  have a: "matches_raw_html_embed (div_raw_html_embed ''<b>&amp; 1 < 2</b>'')"
    by (simp add: matches_raw_html_embed_def div_raw_html_embed_def)
  have b: "getCustomProperty (div_raw_html_embed ''<b>&amp; 1 < 2</b>'') ''$rawContent''
       = Str ''<b>&amp; 1 < 2</b>''"
    by (simp add: getCustomProperty_def div_raw_html_embed_def)
  from upcast_dataDowncast_assigns_value
    [OF a b, of 3 editor0 "HTMLElement ''div'' [(''class'', ''raw-html-embed'')] [] []"] a b
  show ?thesis by simp
qed

text \<open>
  C2 as stated asks for inner markup identical to \<open>m\<close>. For the captured content
  \<^verbatim>\<open>a > b\<close> the element rendered by the data downcast reads back as \<^verbatim>\<open>a &gt; b\<close>.
\<close>

theorem roundtrip_markup_counterexample:
  "matches_raw_html_embed (div_raw_html_embed ''a > b'')
   \<and> getCustomProperty (div_raw_html_embed ''a > b'') ''$rawContent'' = Str ''a > b''
   \<and> innerHTML (renderFunction (dataDowncast_view 3)
         (insertElement 3 (upcast_model (div_raw_html_embed ''a > b'')) editor0)
         (HTMLElement ''div'' [(''class'', ''raw-html-embed'')] [] []))
       = Some ''a &gt; b''
   \<and> ''a &gt; b'' \<noteq> ''a > b''"
  by (simp add: matches_raw_html_embed_def div_raw_html_embed_def getCustomProperty_def
      upcast_model_def createElement_model_def getAttribute_def dataDowncast_view_def
      createRawElement_def insertElement_def innerHTML_def text_char_def escape_text_def
      escape_char_def)

text \<open>
  C10. When the \<^verbatim>\<open>value\<close> attribute of a model element reads as \<^verbatim>\<open>undefined\<close>, the data
  downcast gives the DOM element the empty inner markup and the source editor is
  created with the empty document; both are ordinary results.
\<close>

theorem missing_value_is_empty:
  assumes "getAttribute (elements s r) ''value'' = Undefined"
  shows "childNodes (renderFunction (dataDowncast_view r) s (HTMLElement tag as cs ls))
       = [Markup []]
     \<and> getRawHtmlValue r s = []
     \<and> map source_editor_docs
         (render_children (editingDowncast_view r s0) s (HTMLElement tag as cs ls)) = [[[]]]"
  using assms
  by (simp add: editingDowncast_view_def createRawElement_def writer_setAttribute_def
      createContainerElement_def writer_setCustomProperty_def toWidget_def render_children_def
      contentWrapper_render_def renderContent_def codemirror_init_def createElement_dom_def
      getRawHtmlValue_def source_editor_docs_def dataDowncast_view_def Let_def)

text \<open>Element 5 of the example editor has no \<^verbatim>\<open>value\<close> attribute.\<close>

theorem missing_value_is_empty_witness:
  "attrs (elements editor0 5) ''value'' = None
   \<and> getAttribute (elements editor0 5) ''value'' = Undefined
   \<and> childNodes (renderFunction (dataDowncast_view 5) editor0 (HTMLElement ''div'' [] [] []))
       = [Markup []]
   \<and> getRawHtmlValue 5 editor0 = []
   \<and> map source_editor_docs
       (render_children (editingDowncast_view 5 editor0) editor0 (HTMLElement ''div'' [] [] []))
       = [[[]]]"
proof -
  have a: "getAttribute (elements editor0 5) ''value'' = Undefined"
    by (simp add: editor0_def getAttribute_def)
  have b: "attrs (elements editor0 5) ''value'' = None"
    by (simp add: editor0_def)
  from missing_value_is_empty [OF a, of "''div''" "[]" "[]" "[]" editor0] a b
  show ?thesis by simp
qed

subsection \<open>Editing downcast\<close>

text \<open>
  C3, as the code has it. For every model element and every configuration, the editing
  downcast gives a widget on a \<^verbatim>\<open>div\<close> container of class \<^verbatim>\<open>raw-html-embed\<close>, labelled
  with the translated "HTML snippet", with one raw (manually rendered) \<^verbatim>\<open>div\<close> child of
  class \<^verbatim>\<open>raw-html-embed__content-wrapper\<close>. Rendering that child empties the DOM element
  and puts the source editor into it. Neither the view nor the rendering depends on the
  plugin configuration, so \<^verbatim>\<open>showPreviews\<close> has no effect.
\<close>

theorem editingDowncast_structure:
  "containerName (widgetElement (editingDowncast_view r s)) = ''div''
   \<and> containerAttrs (widgetElement (editingDowncast_view r s)) ''class''
        = Some (AttrStr ''raw-html-embed'')
   \<and> containerAttrs (widgetElement (editingDowncast_view r s)) ''data-html-embed-label''
        = Some (AttrStr (locale_t s ''HTML snippet''))
   \<and> label (widgetOptions (editingDowncast_view r s)) = locale_t s ''HTML snippet''
   \<and> map rawName (containerChildren (widgetElement (editingDowncast_view r s))) = [''div'']
   \<and> map (\<lambda>raw. rawAttrs raw ''class'') (containerChildren (widgetElement (editingDowncast_view r s)))
        = [Some (AttrStr ''raw-html-embed__content-wrapper'')]
   \<and> map childNodes (render_children (editingDowncast_view r s) s' (HTMLElement tag as cs ls))
        = [[HTMLElement ''div''
              [(''class'', ''ck ck-reset ck-input ck-input-text raw-html-embed__source'')]
              [EditorViewDom \<lparr>doc = normalize_line_breaks (getRawHtmlValue r s'),
                              placeholderString = locale_t s' ''Paste raw HTML here...'',
                              updateListener = codemirror_updateListener (setRawHtmlValue r)\<rparr>]
              []]]
   \<and> editingDowncast_view r (s\<lparr>config := cfg\<rparr>) = editingDowncast_view r s
   \<and> render_children (editingDowncast_view r s) (s'\<lparr>config := cfg\<rparr>) d
        = render_children (editingDowncast_view r s) s' d"
  by (simp add: editingDowncast_view_def createRawElement_def writer_setAttribute_def
      createContainerElement_def writer_setCustomProperty_def toWidget_def render_children_def
      contentWrapper_render_def renderContent_def codemirror_init_def createElement_dom_def
      getRawHtmlValue_def Let_def)

text \<open>
  C3 as stated asks for a rendered preview, and so for no source editor, in the content
  wrapper when \<^verbatim>\<open>showPreviews\<close> is on. With previews on, the wrapper of element 0 holds
  the source editor on the element's markup.
\<close>

theorem editingDowncast_preview_counterexample:
  "showPreviews (config (plugin_init (constructor editor0))) = Some True
   \<and> map source_editor_docs
       (render_children (editingDowncast_view 0 (plugin_init (constructor editor0)))
          (plugin_init (constructor editor0)) wrapper0)
     = [[''<b>&amp; 1 < 2</b>'']]"
  by (simp add: plugin_init_def setupConversion_def constructor_def editor0_def config_define_def
      editingDowncast_view_def createRawElement_def writer_setAttribute_def
      createContainerElement_def writer_setCustomProperty_def toWidget_def render_children_def
      contentWrapper_render_def renderContent_def codemirror_init_def createElement_dom_def
      getRawHtmlValue_def getAttribute_def wrapper0_def source_editor_docs_def Let_def)

lemma normalize_line_breaks_id: "CHR 0x0D \<notin> set v \<Longrightarrow> normalize_line_breaks v = v"
  by (induction v rule: normalize_line_breaks.induct) auto

text \<open>
  C6, as the code has it. Whenever the content wrapper of a \<^verbatim>\<open>rawHtml\<close> element is
  rendered, exactly one source editor is created in it, and its document is the string
  the \<^verbatim>\<open>value\<close> attribute holds in the model at that moment with every line break
  (\<^verbatim>\<open>\r\n\<close>, \<^verbatim>\<open>\r\<close> or \<^verbatim>\<open>\n\<close>) read as \<^verbatim>\<open>\n\<close>; for a value without a carriage return
  it is exactly the value.
\<close>

theorem source_editor_prepopulated:
  assumes "getAttribute (elements s r) ''value'' = Str v"
  shows "map source_editor_docs
           (render_children (editingDowncast_view r s0) s (HTMLElement tag as cs ls))
         = [[normalize_line_breaks v]]
     \<and> (CHR 0x0D \<notin> set v \<longrightarrow>
          map source_editor_docs
            (render_children (editingDowncast_view r s0) s (HTMLElement tag as cs ls))
          = [[v]])"
  using assms
  by (simp add: editingDowncast_view_def createRawElement_def writer_setAttribute_def
      createContainerElement_def writer_setCustomProperty_def toWidget_def render_children_def
      contentWrapper_render_def renderContent_def codemirror_init_def createElement_dom_def
      getRawHtmlValue_def source_editor_docs_def normalize_line_breaks_id Let_def)

text \<open>Element 0 of the example editor, rendered into a fresh \<^verbatim>\<open>div\<close>.\<close>

theorem source_editor_prepopulated_witness:
  "getAttribute (elements editor0 0) ''value'' = Str ''<b>&amp; 1 < 2</b>''
   \<and> CHR 0x0D \<notin> set ''<b>&amp; 1 < 2</b>''
   \<and> map source_editor_docs
       (render_children (editingDowncast_view 0 editor0) editor0 (HTMLElement ''div'' [] [] []))
     = [[''<b>&amp; 1 < 2</b>'']]"
proof -
  have a: "getAttribute (elements editor0 0) ''value'' = Str ''<b>&amp; 1 < 2</b>''"
    by (simp add: editor0_def getAttribute_def)
  have b: "CHR 0x0D \<notin> set ''<b>&amp; 1 < 2</b>''"
    by simp
  from source_editor_prepopulated [OF a, of editor0 "''div''" "[]" "[]" "[]"] a b
  show ?thesis by blast
qed

text \<open>
  C6 as stated asks for the document to be exactly the attribute value. After the value
  of element 0 is set to \<^verbatim>\<open>a\r\nb\<close>, the source editor rendered for it holds \<^verbatim>\<open>a\nb\<close>.
\<close>

theorem source_editor_line_break_counterexample:
  "getAttribute
     (elements (setRawHtmlValue 0 [CHR ''a'', CHR 0x0D, CHR 0x0A, CHR ''b''] editor0) 0) ''value''
     = Str [CHR ''a'', CHR 0x0D, CHR 0x0A, CHR ''b'']
   \<and> map source_editor_docs
       (render_children
          (editingDowncast_view 0 (setRawHtmlValue 0 [CHR ''a'', CHR 0x0D, CHR 0x0A, CHR ''b''] editor0))
          (setRawHtmlValue 0 [CHR ''a'', CHR 0x0D, CHR 0x0A, CHR ''b''] editor0)
          (HTMLElement ''div'' [] [] []))
     = [[[CHR ''a'', CHR 0x0A, CHR ''b'']]]
   \<and> [CHR ''a'', CHR 0x0A, CHR ''b''] \<noteq> [CHR ''a'', CHR 0x0D, CHR 0x0A, CHR ''b'']"
  by (simp add: editingDowncast_view_def createRawElement_def writer_setAttribute_def
      createContainerElement_def writer_setCustomProperty_def toWidget_def render_children_def
      contentWrapper_render_def renderContent_def codemirror_init_def createElement_dom_def
      getRawHtmlValue_def source_editor_docs_def setRawHtmlValue_def element_setAttribute_def
      getAttribute_def editor0_def Let_def)

subsection \<open>The listeners of the content wrapper\<close>

text \<open>
  C5. The update listener of the source editor created for element \<open>r\<close>, given the
  content \<open>c\<close>, leaves the \<^verbatim>\<open>value\<close> attribute of \<open>r\<close> equal to \<open>c\<close>, and it runs no
  \<^verbatim>\<open>model.change\<close> transaction: the write is the direct attribute mutation.
\<close>

theorem update_forwards_content:
  "map (\<lambda>v. getAttribute (elements (updateListener v c s) r) ''value'')
       (editorViews (contentWrapper_render r s0 (HTMLElement tag as cs ls))) = [Str c]
   \<and> map (\<lambda>v. changeBlocks (updateListener v c s))
       (editorViews (contentWrapper_render r s0 (HTMLElement tag as cs ls))) = [changeBlocks s]
   \<and> getAttribute (elements (fire (EditorUpdate r c) s) r) ''value'' = Str c
   \<and> changeBlocks (fire (EditorUpdate r c) s) = changeBlocks s"
  by (simp add: contentWrapper_render_def renderContent_def codemirror_init_def
      createElement_dom_def codemirror_updateListener_def setRawHtmlValue_def
      element_setAttribute_def getAttribute_def Let_def)

text \<open>
  C7. Rendering the content wrapper of element \<open>r\<close> adds one listener to the DOM element,
  for \<^verbatim>\<open>mousedown\<close> in the capture phase, and after that listener has run, in any state
  of the editor, the selected element of the model is \<open>r\<close>.
\<close>

theorem mousedown_selects_widget:
  "selectedElement (mousedown_listener r s) = Some r
   \<and> map (\<lambda>l. (eventType l, useCapture l, selectedElement (handler l s)))
       (listeners (contentWrapper_render r s0 (HTMLElement tag as cs ls)))
     = map (\<lambda>l. (eventType l, useCapture l, selectedElement (handler l s))) ls
       @ [(''mousedown'', True, Some r)]"
  by (simp add: contentWrapper_render_def renderContent_def codemirror_init_def
      createElement_dom_def mousedown_listener_def model_change_def writer_setSelection_on_def
      Let_def)

subsection \<open>The sanitize function and the warning\<close>

text \<open>
  C8. The default sanitize function returns its input unchanged with \<^verbatim>\<open>hasChanged\<close> false
  and appends one warning to the console; it is the function the configuration holds
  after construction when the integrator gave none.
\<close>

theorem default_sanitizeHtml_noop:
  "default_sanitizeHtml rawHtml c =
     (\<lparr>html = rawHtml, hasChanged = False\<rparr>,
      c @ [Warning ''html-embed-provide-sanitize-function''])
   \<and> sanitizeHtml (config (constructor (editor\<lparr>config := (config editor)\<lparr>sanitizeHtml := None\<rparr>\<rparr>)))
       = Some default_sanitizeHtml"
  by (simp add: default_sanitizeHtml_def logWarning_def constructor_def config_define_def)

lemma render_sweep_console: "console (render_sweep bs s) = console s"
  by (induction bs arbitrary: s) simp_all

lemma fire_warnings: "warnings (console (fire e s)) = warnings (console s)"
  by (cases e) (simp_all add: render_handler_def render_sweep_console mousedown_listener_def
      model_change_def writer_setSelection_on_def codemirror_updateListener_def
      setRawHtmlValue_def console_log_def warnings_def)

lemma run_warnings: "warnings (console (run es s)) = warnings (console s)"
  by (induction es arbitrary: s) (simp_all add: fire_warnings)

text \<open>
  C4, as the code has it. Constructing and initialising the plugin and then running any
  sequence of render events, renderings, mouse presses and source edits logs no
  warning, whatever the configuration: the warning sits in the default sanitize
  function, which the plugin only stores in the configuration and never calls.
\<close>

theorem no_warning_logged:
  "warnings (console (run es (plugin_init (constructor editor)))) = warnings (console editor)"
  by (simp add: run_warnings plugin_init_def setupConversion_def constructor_def)

text \<open>
  C4 as stated asks for exactly one warning per initialisation when previews are on and
  no sanitize function is given. The example editor is such a configuration with an
  empty console; after initialisation and two renderings around a render event the
  number of warnings is not one.
\<close>

theorem one_warning_counterexample:
  "showPreviews (config (plugin_init (constructor editor0))) = Some True
   \<and> sanitizeHtml (config editor0) = None
   \<and> length (warnings (console (run [EditingDowncastRender 0 wrapper0, ViewRender,
        EditingDowncastRender 0 wrapper0] (plugin_init (constructor editor0))))) \<noteq> 1"
  by (simp add: plugin_init_def setupConversion_def constructor_def editor0_def config_define_def
      render_handler_def warnings_def)

end
